theory Spec2Isabelle
  imports Main "HOL-Library.Word" "HOL-Library.Signed_Division"
begin

unbundle bit_operations_syntax

section \<open>The primitive type \<open>T\<close>\<close>

text \<open>
  \<^verbatim>\<open>Extended<T>\<close> is a template over a non-bool arithmetic type. The model covers the
  integer instances: \<open>T\<close> is a fixed-width integer, its bit pattern an \<open>'a word\<close>,
  and a flag \<open>sg\<close> that says whether \<open>T\<close> is a signed type (\<^verbatim>\<open>std::is_signed_v<T>\<close>).
  Arithmetic on \<open>T\<close> wraps around modulo \<open>2 ^ LENGTH('a)\<close>, which is what
  \<^verbatim>\<open>static_cast<T>(...)\<close> of the promoted result gives.  Where C++ leaves the built-in
  operator without a result (quotient or remainder by zero, the quotient of the least
  signed value by \<open>- 1\<close> when it is not representable in the promoted type and the
  remainder that goes with it, a shift count that is negative or not below the width of
  the promoted operand) the primitive returns \<open>None\<close>.
\<close>

definition prim_value :: "bool \<Rightarrow> 'a::len word \<Rightarrow> int" where
  "prim_value sg v = (if sg then sint v else uint v)"

definition prim_less :: "bool \<Rightarrow> 'a::len word \<Rightarrow> 'a word \<Rightarrow> bool" where
  "prim_less sg a b = (if sg then a <s b else a < b)"

text \<open>
  The operands of a built-in operator are promoted to at least \<^verbatim>\<open>int\<close>, taken as 32
  bits wide.
\<close>

definition promoted_width :: "'a::len word \<Rightarrow> nat" where
  "promoted_width a = max 32 LENGTH('a)"

text \<open>
  \<^verbatim>\<open>a / b\<close> and \<^verbatim>\<open>a % b\<close> are computed in the promoted type.  The quotient of the
  least value of a signed \<open>T\<close> by \<open>- 1\<close> is not representable there exactly when \<open>T\<close> is
  not narrower than \<^verbatim>\<open>int\<close>; then neither operator has a result.  For a narrower \<open>T\<close>
  the quotient exists in \<^verbatim>\<open>int\<close> and the cast back to \<open>T\<close> wraps.
\<close>

definition quotient_overflows :: "bool \<Rightarrow> 'a::len word \<Rightarrow> 'a word \<Rightarrow> bool" where
  "quotient_overflows sg a b =
     (sg \<and> promoted_width a = LENGTH('a) \<and>
      sint a = - (2 ^ (LENGTH('a) - 1)) \<and> sint b = - 1)"

definition prim_div :: "bool \<Rightarrow> 'a::len word \<Rightarrow> 'a word \<Rightarrow> 'a word option" where
  "prim_div sg a b =
     (if b = 0 \<or> quotient_overflows sg a b then None
      else if sg then Some (word_of_int (sint a sdiv sint b)) else Some (a div b))"

definition prim_mod :: "bool \<Rightarrow> 'a::len word \<Rightarrow> 'a word \<Rightarrow> 'a word option" where
  "prim_mod sg a b =
     (if b = 0 \<or> quotient_overflows sg a b then None
      else if sg then Some (word_of_int (sint a smod sint b)) else Some (a mod b))"

definition prim_shl :: "bool \<Rightarrow> 'a::len word \<Rightarrow> 'a word \<Rightarrow> 'a word option" where
  "prim_shl sg a b =
     (if prim_value sg b < 0 \<or> int (promoted_width a) \<le> prim_value sg b then None
      else Some (push_bit (nat (prim_value sg b)) a))"

definition prim_shr :: "bool \<Rightarrow> 'a::len word \<Rightarrow> 'a word \<Rightarrow> 'a word option" where
  "prim_shr sg a b =
     (if prim_value sg b < 0 \<or> int (promoted_width a) \<le> prim_value sg b then None
      else if sg then Some (signed_drop_bit (nat (prim_value sg b)) a)
      else Some (drop_bit (nat (prim_value sg b)) a))"

section \<open>infinite\_error.h, infinite\_error.cpp\<close>

datatype infinite_error = infinite_error (what: string)

text \<open>\<^verbatim>\<open>inf_assert\<close> throws when the predicate is false: the exception, if any.\<close>

definition inf_assert :: "bool \<Rightarrow> string \<Rightarrow> infinite_error option" where
  "inf_assert pred msg = (if \<not> pred then Some (infinite_error msg) else None)"

section \<open>extended.h: the class\<close>

text \<open>\<^verbatim>\<open>enum class INF\<close> (the name \<open>INF\<close> is taken by the lattice syntax).\<close>

datatype INF_enum = POS | NEG

record (overloaded) ('a::len) Extended =
  m_value :: "'a word"
  m_flag :: "8 word"

definition FINITE_FLAG :: "8 word" where "FINITE_FLAG = 0"
definition POS_INF_FLAG :: "8 word" where "POS_INF_FLAG = 1"
definition NEG_INF_FLAG :: "8 word" where "NEG_INF_FLAG = - 1"

text \<open>
  The class invariant: \<^verbatim>\<open>m_flag\<close> is private and only ever holds one of the three
  constants.
\<close>

definition flag_ok :: "'a::len Extended \<Rightarrow> bool" where
  "flag_ok x = (m_flag x = FINITE_FLAG \<or> m_flag x = POS_INF_FLAG \<or> m_flag x = NEG_INF_FLAG)"

subsection \<open>Construction and assignment\<close>

definition Extended_default :: "'a::len Extended" where
  "Extended_default = \<lparr>m_value = 0, m_flag = FINITE_FLAG\<rparr>"

definition Extended_number :: "'a::len word \<Rightarrow> 'a Extended" where
  "Extended_number number = \<lparr>m_value = number, m_flag = FINITE_FLAG\<rparr>"

definition Extended_inf :: "INF_enum \<Rightarrow> 'a::len Extended" where
  "Extended_inf inf_type =
     \<lparr>m_value = 0, m_flag = (if inf_type = POS then POS_INF_FLAG else NEG_INF_FLAG)\<rparr>"

definition assign_number :: "'a::len Extended \<Rightarrow> 'a word \<Rightarrow> 'a Extended" where
  "assign_number this number = this\<lparr>m_value := number, m_flag := FINITE_FLAG\<rparr>"

definition assign_inf :: "'a::len Extended \<Rightarrow> INF_enum \<Rightarrow> 'a Extended" where
  "assign_inf this inf_type =
     this\<lparr>m_flag := (if inf_type = POS then POS_INF_FLAG else NEG_INF_FLAG)\<rparr>"

subsection \<open>Basic functionality\<close>

text \<open>
  \<^verbatim>\<open>value()\<close> and \<^verbatim>\<open>infinite_type()\<close> are \<^verbatim>\<open>const\<close> members: they return a result
  or throw, and have no receiver to hand back.
\<close>

definition finite_ext :: "'a::len Extended \<Rightarrow> bool" where
  "finite_ext this = (m_flag this = FINITE_FLAG)"

definition value_ext :: "'a::len Extended \<Rightarrow> infinite_error + 'a word" where
  "value_ext this =
     (case inf_assert (finite_ext this) ''Finite error: This is infinite.'' of
        Some e \<Rightarrow> Inl e
      | None \<Rightarrow> Inr (m_value this))"

definition infinite_type :: "'a::len Extended \<Rightarrow> infinite_error + INF_enum" where
  "infinite_type this =
     (case inf_assert (\<not> finite_ext this) ''Finite error: This is finite.'' of
        Some e \<Rightarrow> Inl e
      | None \<Rightarrow> Inr (if m_flag this = POS_INF_FLAG then POS else NEG))"

text \<open>\<^verbatim>\<open>as_type<S>\<close>: \<^verbatim>\<open>static_cast<S>\<close> keeps the numeric value modulo the width of \<open>S\<close>.\<close>

definition as_type :: "bool \<Rightarrow> 'a::len Extended \<Rightarrow> 'b::len Extended" where
  "as_type sg this =
     (if finite_ext this then Extended_number (word_of_int (prim_value sg (m_value this)))
      else Extended_inf (if m_flag this = POS_INF_FLAG then POS else NEG))"

subsection \<open>Comparison\<close>

definition eq_ext :: "'a::len Extended \<Rightarrow> 'a Extended \<Rightarrow> bool" where
  "eq_ext num_1 num_2 =
     (if finite_ext num_1 \<and> finite_ext num_2 then m_value num_1 = m_value num_2
      else m_flag num_1 = m_flag num_2)"

definition neq_ext :: "'a::len Extended \<Rightarrow> 'a Extended \<Rightarrow> bool" where
  "neq_ext num_1 num_2 = (\<not> eq_ext num_1 num_2)"

definition less_ext :: "bool \<Rightarrow> 'a::len Extended \<Rightarrow> 'a Extended \<Rightarrow> bool" where
  "less_ext sg num_1 num_2 =
     (if finite_ext num_1 \<and> finite_ext num_2 then prim_less sg (m_value num_1) (m_value num_2)
      else if finite_ext num_1 then m_flag num_2 = POS_INF_FLAG
      else if finite_ext num_2 then m_flag num_1 = NEG_INF_FLAG
      else m_flag num_1 = NEG_INF_FLAG \<and> m_flag num_2 = POS_INF_FLAG)"

definition greater_ext :: "bool \<Rightarrow> 'a::len Extended \<Rightarrow> 'a Extended \<Rightarrow> bool" where
  "greater_ext sg num_1 num_2 = less_ext sg num_2 num_1"

definition le_ext :: "bool \<Rightarrow> 'a::len Extended \<Rightarrow> 'a Extended \<Rightarrow> bool" where
  "le_ext sg num_1 num_2 = (\<not> less_ext sg num_2 num_1)"

definition ge_ext :: "bool \<Rightarrow> 'a::len Extended \<Rightarrow> 'a Extended \<Rightarrow> bool" where
  "ge_ext sg num_1 num_2 = (\<not> less_ext sg num_1 num_2)"

subsection \<open>Unary plus and minus, bool\<close>

definition uplus :: "'a::len Extended \<Rightarrow> 'a Extended" where
  "uplus this = this"

text \<open>Unary minus is only instantiated for a signed \<open>T\<close> (a \<^verbatim>\<open>static_assert\<close>).\<close>

definition uminus_ext :: "'a::len Extended \<Rightarrow> 'a Extended" where
  "uminus_ext this =
     (let neg = Extended_default
      in if finite_ext this then neg\<lparr>m_value := - m_value this\<rparr>
         else neg\<lparr>m_flag := - m_flag this\<rparr>)"

definition to_bool :: "'a::len Extended \<Rightarrow> bool" where
  "to_bool this = (if \<not> finite_ext this then True else m_value this \<noteq> 0)"

subsection \<open>Increment and decrement\<close>

text \<open>
  All four are \<^verbatim>\<open>noexcept\<close>.  The prefix forms return the receiver itself; the postfix
  forms return the copy taken before the step, paired here with the receiver after it.
\<close>

definition pre_inc :: "'a::len Extended \<Rightarrow> 'a Extended" where
  "pre_inc this = this\<lparr>m_value := m_value this + 1\<rparr>"

definition post_inc :: "'a::len Extended \<Rightarrow> 'a Extended \<times> 'a Extended" where
  "post_inc this = (let tmp = this in (tmp, this\<lparr>m_value := m_value this + 1\<rparr>))"

definition pre_dec :: "'a::len Extended \<Rightarrow> 'a Extended" where
  "pre_dec this = this\<lparr>m_value := m_value this - 1\<rparr>"

definition post_dec :: "'a::len Extended \<Rightarrow> 'a Extended \<times> 'a Extended" where
  "post_dec this = (let tmp = this in (tmp, this\<lparr>m_value := m_value this - 1\<rparr>))"

subsection \<open>Arithmetic\<close>

text \<open>
  A compound assignment mutates its receiver and may throw.  Its model yields the
  receiver as the call leaves it: \<open>Returns\<close> after a normal return, \<open>Throws\<close> with the
  exception and the receiver as it is at the \<^verbatim>\<open>throw\<close>.  \<open>Undefined\<close> stands for a
  built-in operator of \<open>T\<close> applied outside its domain.
\<close>

datatype 's outcome = Returns 's | Throws infinite_error 's | Undefined

definition invalid_flag :: "'s \<Rightarrow> 's outcome" where
  "invalid_flag this = Throws (infinite_error ''Internal error: invalid infinite flag.'') this"

definition add_assign :: "'a::len Extended \<Rightarrow> 'a Extended \<Rightarrow> 'a Extended outcome" where
  "add_assign this other =
     (if m_flag this = FINITE_FLAG then
        (if m_flag other = FINITE_FLAG then
           Returns (this\<lparr>m_value := m_value this + m_value other\<rparr>)
         else if m_flag other = POS_INF_FLAG \<or> m_flag other = NEG_INF_FLAG then
           Returns (this\<lparr>m_flag := m_flag other\<rparr>)
         else invalid_flag this)
      else if m_flag this = POS_INF_FLAG then
        (if m_flag other = FINITE_FLAG \<or> m_flag other = POS_INF_FLAG then Returns this
         else if m_flag other = NEG_INF_FLAG then
           Throws (infinite_error ''Indeterminate form: +inf + -inf'') this
         else invalid_flag this)
      else if m_flag this = NEG_INF_FLAG then
        (if m_flag other = POS_INF_FLAG then
           Throws (infinite_error ''Indeterminate form: -inf + +inf'') this
         else if m_flag other = FINITE_FLAG \<or> m_flag other = NEG_INF_FLAG then Returns this
         else invalid_flag this)
      else invalid_flag this)"

definition sub_assign :: "'a::len Extended \<Rightarrow> 'a Extended \<Rightarrow> 'a Extended outcome" where
  "sub_assign this other =
     (if m_flag this = FINITE_FLAG then
        (if m_flag other = FINITE_FLAG then
           Returns (this\<lparr>m_value := m_value this - m_value other\<rparr>)
         else if m_flag other = POS_INF_FLAG \<or> m_flag other = NEG_INF_FLAG then
           Returns (this\<lparr>m_flag := - m_flag other\<rparr>)
         else invalid_flag this)
      else if m_flag this = POS_INF_FLAG then
        (if m_flag other = FINITE_FLAG \<or> m_flag other = NEG_INF_FLAG then Returns this
         else if m_flag other = POS_INF_FLAG then
           Throws (infinite_error ''Indeterminate form: +inf - +inf'') this
         else invalid_flag this)
      else if m_flag this = NEG_INF_FLAG then
        (if m_flag other = FINITE_FLAG \<or> m_flag other = POS_INF_FLAG then Returns this
         else if m_flag other = NEG_INF_FLAG then
           Throws (infinite_error ''Indeterminate form: -inf - -inf'') this
         else invalid_flag this)
      else invalid_flag this)"

definition mul_assign :: "bool \<Rightarrow> 'a::len Extended \<Rightarrow> 'a Extended \<Rightarrow> 'a Extended outcome" where
  "mul_assign sg this other =
     (let zero = (0 :: 'a word) in
      if m_flag this = FINITE_FLAG then
        (if m_flag other = FINITE_FLAG then
           Returns (this\<lparr>m_value := m_value this * m_value other\<rparr>)
         else if m_flag other = POS_INF_FLAG \<or> m_flag other = NEG_INF_FLAG then
           (if prim_less sg (m_value this) zero then Returns (this\<lparr>m_flag := - m_flag other\<rparr>)
            else if prim_less sg zero (m_value this) then Returns (this\<lparr>m_flag := m_flag other\<rparr>)
            else Returns this)
         else invalid_flag this)
      else if m_flag this = POS_INF_FLAG then
        (if m_flag other = FINITE_FLAG then
           (if m_value other = zero then Returns (this\<lparr>m_value := 0, m_flag := FINITE_FLAG\<rparr>)
            else if prim_less sg (m_value other) zero then Returns (this\<lparr>m_flag := NEG_INF_FLAG\<rparr>)
            else Returns this)
         else if m_flag other = POS_INF_FLAG \<or> m_flag other = NEG_INF_FLAG then
           Returns (this\<lparr>m_flag := m_flag other\<rparr>)
         else invalid_flag this)
      else if m_flag this = NEG_INF_FLAG then
        (if m_flag other = FINITE_FLAG then
           (if m_value other = zero then Returns (this\<lparr>m_value := 0, m_flag := FINITE_FLAG\<rparr>)
            else if prim_less sg (m_value other) zero then Returns (this\<lparr>m_flag := POS_INF_FLAG\<rparr>)
            else Returns this)
         else if m_flag other = POS_INF_FLAG \<or> m_flag other = NEG_INF_FLAG then
           Returns (this\<lparr>m_flag := - m_flag other\<rparr>)
         else invalid_flag this)
      else invalid_flag this)"

definition div_assign :: "bool \<Rightarrow> 'a::len Extended \<Rightarrow> 'a Extended \<Rightarrow> 'a Extended outcome" where
  "div_assign sg this other =
     (let zero = (0 :: 'a word) in
      if m_flag this = FINITE_FLAG then
        (if m_flag other = FINITE_FLAG then
           (case inf_assert (m_value other \<noteq> zero) ''Indeterminate form: +inf / 0'' of
              Some e \<Rightarrow> Throws e this
            | None \<Rightarrow>
                (case prim_div sg (m_value this) (m_value other) of
                   None \<Rightarrow> Undefined
                 | Some q \<Rightarrow> Returns (this\<lparr>m_value := q\<rparr>)))
         else if m_flag other = POS_INF_FLAG \<or> m_flag other = NEG_INF_FLAG then
           Returns (this\<lparr>m_value := zero\<rparr>)
         else invalid_flag this)
      else if m_flag this = POS_INF_FLAG then
        (if m_flag other = FINITE_FLAG then
           (case inf_assert (m_value other \<noteq> zero) ''Indeterminate form: +inf / 0'' of
              Some e \<Rightarrow> Throws e this
            | None \<Rightarrow>
                if prim_less sg (m_value other) zero then Returns (this\<lparr>m_flag := NEG_INF_FLAG\<rparr>)
                else Returns this)
         else if m_flag other = POS_INF_FLAG then
           Throws (infinite_error ''+inf / +inf indeterminate form.'') this
         else if m_flag other = NEG_INF_FLAG then
           Throws (infinite_error ''+inf / -inf indeterminate form.'') this
         else invalid_flag this)
      else if m_flag this = NEG_INF_FLAG then
        (if m_flag other = FINITE_FLAG then
           (case inf_assert (m_value other \<noteq> zero) ''Indeterminate form: +inf / 0'' of
              Some e \<Rightarrow> Throws e this
            | None \<Rightarrow>
                if prim_less sg (m_value other) zero then Returns (this\<lparr>m_flag := POS_INF_FLAG\<rparr>)
                else Returns this)
         else if m_flag other = POS_INF_FLAG then
           Throws (infinite_error ''-inf / +inf indeterminate form.'') this
         else if m_flag other = NEG_INF_FLAG then
           Throws (infinite_error ''-inf / -inf indeterminate form.'') this
         else invalid_flag this)
      else invalid_flag this)"

definition mod_assign :: "bool \<Rightarrow> 'a::len Extended \<Rightarrow> 'a Extended \<Rightarrow> 'a Extended outcome" where
  "mod_assign sg this other =
     (case inf_assert (finite_ext this \<and> finite_ext other)
             ''Finite error: modular arithmetic requires finite values.'' of
        Some e \<Rightarrow> Throws e this
      | None \<Rightarrow>
          (case prim_mod sg (m_value this) (m_value other) of
             None \<Rightarrow> Undefined
           | Some r \<Rightarrow> Returns (this\<lparr>m_value := r\<rparr>)))"

subsection \<open>Bitwise\<close>

definition bit_not :: "'a::len Extended \<Rightarrow> infinite_error + 'a Extended" where
  "bit_not this =
     (case inf_assert (finite_ext this) ''Finite error: bitwise not requires finite values.'' of
        Some e \<Rightarrow> Inl e
      | None \<Rightarrow> Inr (Extended_number (NOT (m_value this))))"

definition and_assign :: "'a::len Extended \<Rightarrow> 'a Extended \<Rightarrow> 'a Extended outcome" where
  "and_assign this other =
     (case inf_assert (finite_ext this \<and> finite_ext other)
             ''Finite error: bitwise and requires finite values.'' of
        Some e \<Rightarrow> Throws e this
      | None \<Rightarrow> Returns (this\<lparr>m_value := m_value this AND m_value other\<rparr>))"

definition or_assign :: "'a::len Extended \<Rightarrow> 'a Extended \<Rightarrow> 'a Extended outcome" where
  "or_assign this other =
     (case inf_assert (finite_ext this \<and> finite_ext other)
             ''Finite error: bitwise or requires finite values.'' of
        Some e \<Rightarrow> Throws e this
      | None \<Rightarrow> Returns (this\<lparr>m_value := m_value this OR m_value other\<rparr>))"

definition xor_assign :: "'a::len Extended \<Rightarrow> 'a Extended \<Rightarrow> 'a Extended outcome" where
  "xor_assign this other =
     (case inf_assert (finite_ext this \<and> finite_ext other)
             ''Finite error: bitwise xor requires finite values.'' of
        Some e \<Rightarrow> Throws e this
      | None \<Rightarrow> Returns (this\<lparr>m_value := m_value this XOR m_value other\<rparr>))"

definition shl_assign :: "bool \<Rightarrow> 'a::len Extended \<Rightarrow> 'a Extended \<Rightarrow> 'a Extended outcome" where
  "shl_assign sg this other =
     (case inf_assert (finite_ext this \<and> finite_ext other)
             ''Finite error: bitwise leftshift requires finite values.'' of
        Some e \<Rightarrow> Throws e this
      | None \<Rightarrow>
          (case prim_shl sg (m_value this) (m_value other) of
             None \<Rightarrow> Undefined
           | Some r \<Rightarrow> Returns (this\<lparr>m_value := r\<rparr>)))"

definition shr_assign :: "bool \<Rightarrow> 'a::len Extended \<Rightarrow> 'a Extended \<Rightarrow> 'a Extended outcome" where
  "shr_assign sg this other =
     (case inf_assert (finite_ext this \<and> finite_ext other)
             ''Finite error: bitwise rightshift requires finite values.'' of
        Some e \<Rightarrow> Throws e this
      | None \<Rightarrow>
          (case prim_shr sg (m_value this) (m_value other) of
             None \<Rightarrow> Undefined
           | Some r \<Rightarrow> Returns (this\<lparr>m_value := r\<rparr>)))"

subsection \<open>Streams\<close>

text \<open>
  The output stream is the text written to it so far.  What \<^verbatim>\<open>os << ext.m_value\<close>
  writes and what \<^verbatim>\<open>is >> ext.m_value\<close> reads belong to \<open>T\<close> and the stream library,
  not to this class: they are the parameters \<open>put\<close> and \<open>get\<close>.
\<close>

definition insert_ext :: "('a::len word \<Rightarrow> string) \<Rightarrow> string \<Rightarrow> 'a Extended \<Rightarrow> string" where
  "insert_ext put os ext =
     (if finite_ext ext then os @ put (m_value ext)
      else os @ (if m_flag ext = POS_INF_FLAG then ''+inf'' else ''-inf''))"

definition extract_ext ::
  "('i \<Rightarrow> 'a::len word \<Rightarrow> 'i \<times> 'a word) \<Rightarrow> 'i \<Rightarrow> 'a Extended \<Rightarrow> 'i \<times> 'a Extended" where
  "extract_ext get is ext =
     (let ext1 = ext\<lparr>m_flag := FINITE_FLAG\<rparr>;
          (is1, v) = get is (m_value ext1)
      in (is1, ext1\<lparr>m_value := v\<rparr>))"

subsection \<open>Symmetric arithmetic and bitwise operators\<close>

text \<open>
  The binary operators take \<open>lhs\<close> by value, apply the compound assignment to that copy
  and return it; an exception leaves nothing behind.
\<close>

definition by_value :: "'s outcome \<Rightarrow> (infinite_error + 's) option" where
  "by_value r = (case r of Returns lhs \<Rightarrow> Some (Inr lhs) | Throws e lhs \<Rightarrow> Some (Inl e) | Undefined \<Rightarrow> None)"

definition op_add :: "'a::len Extended \<Rightarrow> 'a Extended \<Rightarrow> (infinite_error + 'a Extended) option" where
  "op_add lhs rhs = by_value (add_assign lhs rhs)"

definition op_sub :: "'a::len Extended \<Rightarrow> 'a Extended \<Rightarrow> (infinite_error + 'a Extended) option" where
  "op_sub lhs rhs = by_value (sub_assign lhs rhs)"

definition op_mul :: "bool \<Rightarrow> 'a::len Extended \<Rightarrow> 'a Extended \<Rightarrow> (infinite_error + 'a Extended) option" where
  "op_mul sg lhs rhs = by_value (mul_assign sg lhs rhs)"

definition op_div :: "bool \<Rightarrow> 'a::len Extended \<Rightarrow> 'a Extended \<Rightarrow> (infinite_error + 'a Extended) option" where
  "op_div sg lhs rhs = by_value (div_assign sg lhs rhs)"

definition op_mod :: "bool \<Rightarrow> 'a::len Extended \<Rightarrow> 'a Extended \<Rightarrow> (infinite_error + 'a Extended) option" where
  "op_mod sg lhs rhs = by_value (mod_assign sg lhs rhs)"

definition op_and :: "'a::len Extended \<Rightarrow> 'a Extended \<Rightarrow> (infinite_error + 'a Extended) option" where
  "op_and lhs rhs = by_value (and_assign lhs rhs)"

definition op_or :: "'a::len Extended \<Rightarrow> 'a Extended \<Rightarrow> (infinite_error + 'a Extended) option" where
  "op_or lhs rhs = by_value (or_assign lhs rhs)"

definition op_xor :: "'a::len Extended \<Rightarrow> 'a Extended \<Rightarrow> (infinite_error + 'a Extended) option" where
  "op_xor lhs rhs = by_value (xor_assign lhs rhs)"

definition op_shl :: "bool \<Rightarrow> 'a::len Extended \<Rightarrow> 'a Extended \<Rightarrow> (infinite_error + 'a Extended) option" where
  "op_shl sg lhs rhs = by_value (shl_assign sg lhs rhs)"

definition op_shr :: "bool \<Rightarrow> 'a::len Extended \<Rightarrow> 'a Extended \<Rightarrow> (infinite_error + 'a Extended) option" where
  "op_shr sg lhs rhs = by_value (shr_assign sg lhs rhs)"

section \<open>Decimal text of an integer \<open>T\<close>\<close>

text \<open>
  For an integer type wider than \<^verbatim>\<open>char\<close> and a stream in its initial formatting state,
  \<^verbatim>\<open>os << v\<close> writes the decimal digits of \<open>v\<close>, with a leading minus sign when \<open>v\<close> is
  negative.
\<close>

fun digits :: "nat \<Rightarrow> string" where
  "digits n = (if n < 10 then [''0123456789'' ! n]
               else digits (n div 10) @ [''0123456789'' ! (n mod 10)])"

declare digits.simps [simp del]

definition put_decimal :: "bool \<Rightarrow> 'a::len word \<Rightarrow> string" where
  "put_decimal sg v =
     (if prim_value sg v < 0 then CHR ''-'' # digits (nat (- prim_value sg v))
      else digits (nat (prim_value sg v)))"

text \<open>
  \<^verbatim>\<open>is >> v\<close> for a signed integer type wider than \<^verbatim>\<open>char\<close>, on a stream in its initial
  formatting state: nothing is read when the stream has already failed; otherwise
  leading white space is skipped; when nothing is left after it the stream fails and the
  value stays as it was; else an optional sign and the decimal digits after it are
  consumed; no digit stores zero and fails the stream, a number out of the range of \<open>T\<close>
  stores the nearest bound and fails the stream.
\<close>

record istream =
  buffer :: string
  failbit :: bool

definition is_space :: "char \<Rightarrow> bool" where
  "is_space c = (c \<in> set [CHR '' '', CHR 0x09, CHR 0x0A, CHR 0x0B, CHR 0x0C, CHR 0x0D])"

definition is_digit :: "char \<Rightarrow> bool" where
  "is_digit c = (48 \<le> (of_char c :: nat) \<and> (of_char c :: nat) \<le> 57)"

definition digits_value :: "string \<Rightarrow> nat" where
  "digits_value ds = foldl (\<lambda>acc c. 10 * acc + (of_char c - 48)) 0 ds"

definition get_decimal :: "istream \<Rightarrow> 'a::len word \<Rightarrow> istream \<times> 'a word" where
  "get_decimal is v =
     (if failbit is then (is, v)
      else
        let s = dropWhile is_space (buffer is);
            (negative, s1) =
              (case s of
                 c # r \<Rightarrow> if c = CHR ''-'' then (True, r) else if c = CHR ''+'' then (False, r)
                          else (False, s)
               | [] \<Rightarrow> (False, s));
            ds = takeWhile is_digit s1;
            rest = dropWhile is_digit s1;
            n = (if negative then - int (digits_value ds) else int (digits_value ds));
            hi = (2 :: int) ^ (LENGTH('a) - 1) - 1;
            lo = - ((2 :: int) ^ (LENGTH('a) - 1))
        in if s = [] then (\<lparr>buffer = [], failbit = True\<rparr>, v)
           else if ds = [] then (\<lparr>buffer = rest, failbit = True\<rparr>, 0)
           else if hi < n then (\<lparr>buffer = rest, failbit = True\<rparr>, word_of_int hi)
           else if n < lo then (\<lparr>buffer = rest, failbit = True\<rparr>, word_of_int lo)
           else (\<lparr>buffer = rest, failbit = False\<rparr>, word_of_int n))"

section \<open>Vocabulary of the specification\<close>

text \<open>
  The specification speaks of three states and of the sign of an infinity; both are read
  off \<^verbatim>\<open>m_flag\<close>.  \<open>sign_of\<close> is \<open>0\<close> for the state that has no sign.
\<close>

datatype state = Finite | PositiveInfinity | NegativeInfinity

definition state_of :: "'a::len Extended \<Rightarrow> state" where
  "state_of x =
     (if m_flag x = FINITE_FLAG then Finite
      else if m_flag x = POS_INF_FLAG then PositiveInfinity
      else NegativeInfinity)"

fun opposite :: "state \<Rightarrow> state" where
  "opposite Finite = Finite"
| "opposite PositiveInfinity = NegativeInfinity"
| "opposite NegativeInfinity = PositiveInfinity"

fun sign_of :: "state \<Rightarrow> int" where
  "sign_of Finite = 0"
| "sign_of PositiveInfinity = 1"
| "sign_of NegativeInfinity = - 1"

text \<open>The results of all six comparison operators on a pair, in one list.\<close>

definition compare_all :: "bool \<Rightarrow> 'a::len Extended \<Rightarrow> 'a Extended \<Rightarrow> bool list" where
  "compare_all sg a b =
     [eq_ext a b, neq_ext a b, less_ext sg a b, greater_ext sg a b, le_ext sg a b, ge_ext sg a b]"

text \<open>
  The outcome of a built-in operator of \<open>T\<close> on two payloads, as a compound assignment
  hands it on: a Finite value, or \<open>Undefined\<close> where the operator has no result.
\<close>

definition prim_result :: "'a::len word option \<Rightarrow> 'a Extended outcome" where
  "prim_result r = (case r of None \<Rightarrow> Undefined | Some v \<Rightarrow> Returns (Extended_number v))"

section \<open>Basic facts\<close>

lemma flag_distinct:
  "FINITE_FLAG \<noteq> POS_INF_FLAG" "FINITE_FLAG \<noteq> NEG_INF_FLAG" "POS_INF_FLAG \<noteq> NEG_INF_FLAG"
  "POS_INF_FLAG \<noteq> FINITE_FLAG" "NEG_INF_FLAG \<noteq> FINITE_FLAG" "NEG_INF_FLAG \<noteq> POS_INF_FLAG"
  by (simp_all add: FINITE_FLAG_def POS_INF_FLAG_def NEG_INF_FLAG_def)

lemma flag_negate:
  "- POS_INF_FLAG = NEG_INF_FLAG" "- NEG_INF_FLAG = POS_INF_FLAG" "- FINITE_FLAG = FINITE_FLAG"
  by (simp_all add: FINITE_FLAG_def POS_INF_FLAG_def NEG_INF_FLAG_def)

lemma prim_less_iff: "prim_less sg a b \<longleftrightarrow> prim_value sg a < prim_value sg b"
  by (simp add: prim_less_def prim_value_def word_sless_alt word_less_def)

lemma prim_value_inject: "prim_value sg a = prim_value sg b \<longleftrightarrow> a = b"
  by (auto simp: prim_value_def intro: signed_word_eqI word_uint_eqI)

lemma prim_value_zero: "prim_value sg 0 = 0"
  by (simp add: prim_value_def)

lemma prim_less_irrefl: "\<not> prim_less sg v v"
  by (simp add: prim_less_iff)

lemma prim_less_zero_sgn:
  "prim_less sg v 0 \<Longrightarrow> sgn (prim_value sg v) = - 1"
  "\<not> prim_less sg v 0 \<Longrightarrow> v \<noteq> 0 \<Longrightarrow> sgn (prim_value sg v) = 1"
  using prim_value_inject [of sg v 0]
  by (simp_all add: prim_less_iff prim_value_zero)

lemma prim_greater_zero:
  "\<not> prim_less sg v 0 \<Longrightarrow> v \<noteq> 0 \<Longrightarrow> prim_less sg 0 v"
  using prim_value_inject [of sg v 0]
  by (auto simp: prim_less_iff prim_value_zero)

text \<open>Where the built-in quotient and remainder have no result, and only there.\<close>

lemma prim_div_None_iff: "prim_div sg a b = None \<longleftrightarrow> b = 0 \<or> quotient_overflows sg a b"
  by (simp add: prim_div_def)

lemma prim_mod_None_iff: "prim_mod sg a b = None \<longleftrightarrow> b = 0 \<or> quotient_overflows sg a b"
  by (simp add: prim_mod_def)

lemma least_by_minus_one:
  "prim_div True (- 2147483648 :: 32 word) (- 1) = None"
  "prim_mod True (- 2147483648 :: 32 word) (- 1) = None"
  "prim_div True (- 9223372036854775808 :: 64 word) (- 1) = None"
  "prim_mod True (- 9223372036854775808 :: 64 word) (- 1) = None"
  "prim_div True (- 128 :: 8 word) (- 1) = Some (- 128)"
  "prim_mod True (- 128 :: 8 word) (- 1) = Some 0"
  "prim_div False (- 2147483648 :: 32 word) (- 1) = Some 0"
  by (simp_all add: prim_div_def prim_mod_def quotient_overflows_def promoted_width_def
      signed_divide_int_def signed_modulo_int_def)

text \<open>Extraction from an exhausted or blank stream fails and stores nothing.\<close>

lemma get_decimal_blank:
  "get_decimal \<lparr>buffer = [], failbit = False\<rparr> (7 :: 32 word) =
     (\<lparr>buffer = [], failbit = True\<rparr>, 7)"
  "get_decimal \<lparr>buffer = ''  '', failbit = False\<rparr> (7 :: 32 word) =
     (\<lparr>buffer = [], failbit = True\<rparr>, 7)"
  "get_decimal \<lparr>buffer = ''x'', failbit = False\<rparr> (7 :: 32 word) =
     (\<lparr>buffer = ''x'', failbit = True\<rparr>, 0)"
  by (simp_all add: get_decimal_def is_space_def is_digit_def digits_value_def)

lemma state_of_cases:
  assumes "flag_ok x"
  obtains "m_flag x = FINITE_FLAG" "state_of x = Finite"
  | "m_flag x = POS_INF_FLAG" "state_of x = PositiveInfinity"
  | "m_flag x = NEG_INF_FLAG" "state_of x = NegativeInfinity"
  using assms by (auto simp: flag_ok_def state_of_def flag_distinct)

lemma state_of_value_update [simp]: "state_of (x\<lparr>m_value := v\<rparr>) = state_of x"
  by (simp add: state_of_def)

lemma finite_ext_state_of: "finite_ext x \<longleftrightarrow> state_of x = Finite"
  by (simp add: finite_ext_def state_of_def)

text \<open>The constructors and assignments establish the class invariant.\<close>

lemma flag_ok_constructed:
  "flag_ok (Extended_default :: 'a::len Extended)"
  "flag_ok (Extended_number v)"
  "flag_ok (Extended_inf t :: 'a::len Extended)"
  "flag_ok (assign_number x v)"
  "flag_ok (assign_inf x t)"
  by (simp_all add: flag_ok_def Extended_default_def Extended_number_def Extended_inf_def
      assign_number_def assign_inf_def)

lemmas constructed_defs =
  Extended_default_def Extended_number_def Extended_inf_def flag_ok_def state_of_def
  finite_ext_def flag_distinct flag_negate

text \<open>Every operation that returns normally hands back a receiver with a valid flag.\<close>

lemma flag_ok_arithmetic:
  assumes "flag_ok a" and "flag_ok b"
  shows "add_assign a b = Returns r \<Longrightarrow> flag_ok r"
    and "sub_assign a b = Returns r \<Longrightarrow> flag_ok r"
    and "mul_assign sg a b = Returns r \<Longrightarrow> flag_ok r"
    and "div_assign sg a b = Returns r \<Longrightarrow> flag_ok r"
  using assms
  by (auto simp: flag_ok_def add_assign_def sub_assign_def mul_assign_def div_assign_def
      invalid_flag_def inf_assert_def flag_distinct flag_negate split: if_splits option.splits)

lemma flag_ok_finite_only:
  shows "mod_assign sg a b = Returns r \<Longrightarrow> flag_ok r"
    and "and_assign a b = Returns r \<Longrightarrow> flag_ok r"
    and "or_assign a b = Returns r \<Longrightarrow> flag_ok r"
    and "xor_assign a b = Returns r \<Longrightarrow> flag_ok r"
    and "shl_assign sg a b = Returns r \<Longrightarrow> flag_ok r"
    and "shr_assign sg a b = Returns r \<Longrightarrow> flag_ok r"
    and "bit_not a = Inr r \<Longrightarrow> flag_ok r"
  by (auto simp: flag_ok_def mod_assign_def and_assign_def or_assign_def xor_assign_def
      shl_assign_def shr_assign_def bit_not_def inf_assert_def finite_ext_def Extended_number_def
      split: if_splits option.splits)

lemma flag_ok_unary:
  assumes "flag_ok a"
  shows "flag_ok (uplus a)" and "flag_ok (uminus_ext a)"
    and "flag_ok (pre_inc a)" and "flag_ok (snd (post_inc a))"
    and "flag_ok (pre_dec a)" and "flag_ok (snd (post_dec a))"
    and "flag_ok (snd (extract_ext get is a))"
    and "flag_ok (as_type sg a :: 'b::len Extended)"
  using assms
  by (auto simp: flag_ok_def uplus_def uminus_ext_def pre_inc_def post_inc_def pre_dec_def
      post_dec_def extract_ext_def as_type_def Extended_default_def Extended_number_def
      Extended_inf_def finite_ext_def flag_negate Let_def split: prod.splits)

section \<open>Assertions of test.cpp\<close>

text \<open>\<^verbatim>\<open>test::basic\<close>: conversion keeps the payload and the infinity.\<close>

lemma test_basic_as_type:
  "value_ext (as_type False (Extended_number (3 :: 32 word)) :: 64 Extended) = Inr 3"
  "infinite_type (as_type True (Extended_inf NEG :: 32 Extended) :: 8 Extended) = Inr NEG"
  by (simp_all add: as_type_def prim_value_def value_ext_def infinite_type_def inf_assert_def
      constructed_defs)

text \<open>\<^verbatim>\<open>test::unary\<close> on \<^verbatim>\<open>Extended<char>\<close>.\<close>

lemma test_unary:
  "eq_ext (uminus_ext (Extended_number (- 42 :: 8 word))) (Extended_number 42)"
  "eq_ext (uminus_ext (Extended_inf NEG :: 8 Extended)) (Extended_inf POS)"
  "\<not> to_bool (Extended_default :: 8 Extended)"
  "to_bool (Extended_inf NEG :: 8 Extended)"
  "eq_ext (snd (post_inc (Extended_number (- 42 :: 8 word)))) (Extended_number (- 41))"
  "eq_ext (pre_dec (Extended_inf POS :: 8 Extended)) (Extended_inf POS)"
  by (simp_all add: uminus_ext_def to_bool_def post_inc_def pre_dec_def eq_ext_def
      constructed_defs)

text \<open>\<^verbatim>\<open>test::add_subtract\<close> on \<^verbatim>\<open>Extended<int8_t>\<close>.\<close>

lemma test_add_subtract:
  "op_add (Extended_number (42 :: 8 word)) (Extended_number (- 42)) = Some (Inr (Extended_number 0))"
  "\<exists>r. op_sub (Extended_number (- 42 :: 8 word)) (Extended_inf NEG) = Some (Inr r) \<and>
       eq_ext r (Extended_inf POS)"
  "\<exists>e. op_sub (Extended_inf POS :: 8 Extended) (Extended_inf POS) = Some (Inl e)"
  "\<exists>e. op_add (Extended_inf NEG :: 8 Extended) (Extended_inf POS) = Some (Inl e)"
  by (simp_all add: op_add_def op_sub_def by_value_def add_assign_def sub_assign_def eq_ext_def
      constructed_defs)

text \<open>\<^verbatim>\<open>test::multiply_divide\<close> on \<^verbatim>\<open>Extended<int16_t>\<close>.\<close>

lemma test_multiply_divide:
  "op_mul True (Extended_inf NEG :: 16 Extended) (Extended_number 0) = Some (Inr (Extended_number 0))"
  "op_mul True (Extended_number (0 :: 16 word)) (Extended_inf NEG) = Some (Inr (Extended_number 0))"
  "op_div True (Extended_number (42 :: 16 word)) (Extended_number (- 42)) =
     Some (Inr (Extended_number (- 1)))"
  "\<exists>r. op_div True (Extended_inf NEG :: 16 Extended) (Extended_number (- 42)) = Some (Inr r) \<and>
       eq_ext r (Extended_inf POS)"
  "\<exists>r. op_mul True (Extended_number (- 42 :: 16 word)) (Extended_inf NEG) = Some (Inr r) \<and>
       eq_ext r (Extended_inf POS)"
  "\<exists>r. op_div True (Extended_number (- 42 :: 16 word)) (Extended_inf NEG) = Some (Inr r) \<and>
       eq_ext r (Extended_number 0)"
  by (simp_all add: op_mul_def op_div_def by_value_def mul_assign_def div_assign_def eq_ext_def
      inf_assert_def prim_less_def prim_div_def quotient_overflows_def promoted_width_def
      word_sless_alt signed_divide_int_def constructed_defs)

text \<open>\<^verbatim>\<open>test::finite_ops\<close> on \<^verbatim>\<open>Extended<uint32_t>\<close>, at 199 and 7.\<close>

lemma test_finite_ops:
  "op_mod False (Extended_number (199 :: 32 word)) (Extended_number 7) =
     Some (Inr (Extended_number 3))"
  "op_shl False (Extended_number (199 :: 32 word)) (Extended_number 7) =
     Some (Inr (Extended_number 25472))"
  "op_shr False (Extended_number (199 :: 32 word)) (Extended_number 7) =
     Some (Inr (Extended_number 1))"
  "op_xor (Extended_number (199 :: 32 word)) (Extended_number 7) = Some (Inr (Extended_number 192))"
  by (simp_all add: op_mod_def op_shl_def op_shr_def op_xor_def by_value_def mod_assign_def
      shl_assign_def shr_assign_def xor_assign_def inf_assert_def prim_mod_def prim_shl_def
      prim_shr_def prim_value_def promoted_width_def quotient_overflows_def constructed_defs)

section \<open>Claims\<close>

text \<open>
  C5. \<^verbatim>\<open>value()\<close> returns the payload when the state is Finite and throws
  \<^verbatim>\<open>infinite_error\<close> exactly when it is not; \<^verbatim>\<open>infinite_type()\<close> returns the sign of
  the infinite state and throws exactly when the state is Finite.  Both are \<^verbatim>\<open>const\<close>
  members, pure functions of the receiver in the model: there is no receiver after the
  call that could differ from the one before.
\<close>

theorem value_and_infinite_type_preconditions:
  "(finite_ext x \<longrightarrow> value_ext x = Inr (m_value x)) \<and>
   (isl (value_ext x) \<longleftrightarrow> \<not> finite_ext x) \<and>
   (m_flag x = POS_INF_FLAG \<longrightarrow> infinite_type x = Inr POS) \<and>
   (m_flag x = NEG_INF_FLAG \<longrightarrow> infinite_type x = Inr NEG) \<and>
   (isl (infinite_type x) \<longleftrightarrow> finite_ext x)"
  by (simp add: value_ext_def infinite_type_def inf_assert_def finite_ext_def flag_distinct)

theorem value_and_infinite_type_preconditions_witness:
  "finite_ext (Extended_number (3 :: 32 word)) \<and>
   value_ext (Extended_number (3 :: 32 word)) = Inr 3 \<and>
   isl (infinite_type (Extended_number (3 :: 32 word))) \<and>
   m_flag (Extended_inf POS :: 8 Extended) = POS_INF_FLAG \<and>
   infinite_type (Extended_inf POS :: 8 Extended) = Inr POS \<and>
   m_flag (Extended_inf NEG :: 32 Extended) = NEG_INF_FLAG \<and>
   infinite_type (Extended_inf NEG :: 32 Extended) = Inr NEG \<and>
   isl (value_ext (Extended_inf NEG :: 32 Extended))"
  using value_and_infinite_type_preconditions [of "Extended_number (3 :: 32 word)"]
    value_and_infinite_type_preconditions [of "Extended_inf POS :: 8 Extended"]
    value_and_infinite_type_preconditions [of "Extended_inf NEG :: 32 Extended"]
  by (simp add: constructed_defs)

text \<open>
  C1. The additive state-transition table.  Both operands Finite: the left payload
  becomes the sum (for \<^verbatim>\<open>-=\<close> the difference) of the payloads.  Left Finite, right
  infinite: \<^verbatim>\<open>+=\<close> gives the left the right's state, \<^verbatim>\<open>-=\<close> the opposite state.
  Left infinite, right Finite or an infinity of the same sign (for \<^verbatim>\<open>-=\<close>: of the
  opposite sign): the left is unchanged.  The remaining four combinations of two
  infinities throw \<^verbatim>\<open>infinite_error\<close>.
\<close>

theorem additive_state_transition_table:
  assumes "flag_ok l" and "flag_ok r"
  shows
  "(state_of l = Finite \<and> state_of r = Finite \<longrightarrow>
      add_assign l r = Returns (l\<lparr>m_value := m_value l + m_value r\<rparr>) \<and>
      sub_assign l r = Returns (l\<lparr>m_value := m_value l - m_value r\<rparr>)) \<and>
   (state_of l = Finite \<and> state_of r \<noteq> Finite \<longrightarrow>
      (\<exists>l'. add_assign l r = Returns l' \<and> state_of l' = state_of r) \<and>
      (\<exists>l'. sub_assign l r = Returns l' \<and> state_of l' = opposite (state_of r))) \<and>
   (state_of l \<noteq> Finite \<and> (state_of r = Finite \<or> state_of r = state_of l) \<longrightarrow>
      add_assign l r = Returns l) \<and>
   (state_of l \<noteq> Finite \<and> (state_of r = Finite \<or> state_of r = opposite (state_of l)) \<longrightarrow>
      sub_assign l r = Returns l) \<and>
   (state_of l \<noteq> Finite \<and> state_of r = opposite (state_of l) \<longrightarrow>
      (\<exists>e. add_assign l r = Throws e l)) \<and>
   (state_of l \<noteq> Finite \<and> state_of r = state_of l \<longrightarrow>
      (\<exists>e. sub_assign l r = Throws e l))"
  using assms(1)
proof (cases rule: state_of_cases)
  case 1
  from assms(2) show ?thesis
    by (cases rule: state_of_cases)
       (simp_all add: 1 add_assign_def sub_assign_def flag_distinct flag_negate state_of_def)
next
  case 2
  from assms(2) show ?thesis
    by (cases rule: state_of_cases)
       (simp_all add: 2 add_assign_def sub_assign_def flag_distinct flag_negate)
next
  case 3
  from assms(2) show ?thesis
    by (cases rule: state_of_cases)
       (simp_all add: 3 add_assign_def sub_assign_def flag_distinct flag_negate)
qed

theorem additive_state_transition_table_witness:
  "flag_ok (Extended_number (42 :: 8 word)) \<and> flag_ok (Extended_number (- 42 :: 8 word)) \<and>
   flag_ok (Extended_inf POS :: 8 Extended) \<and> flag_ok (Extended_inf NEG :: 8 Extended) \<and>
   add_assign (Extended_number (42 :: 8 word)) (Extended_number (- 42)) = Returns (Extended_number 0) \<and>
   sub_assign (Extended_number (42 :: 8 word)) (Extended_number (- 42)) = Returns (Extended_number 84) \<and>
   (\<exists>l'. add_assign (Extended_number (42 :: 8 word)) (Extended_inf NEG) = Returns l' \<and>
         state_of l' = NegativeInfinity) \<and>
   (\<exists>l'. sub_assign (Extended_number (42 :: 8 word)) (Extended_inf NEG) = Returns l' \<and>
         state_of l' = PositiveInfinity) \<and>
   add_assign (Extended_inf POS :: 8 Extended) (Extended_number 42) = Returns (Extended_inf POS) \<and>
   sub_assign (Extended_inf POS :: 8 Extended) (Extended_inf NEG) = Returns (Extended_inf POS) \<and>
   (\<exists>e. add_assign (Extended_inf POS :: 8 Extended) (Extended_inf NEG) = Throws e (Extended_inf POS)) \<and>
   (\<exists>e. sub_assign (Extended_inf NEG :: 8 Extended) (Extended_inf NEG) = Throws e (Extended_inf NEG))"
  using flag_ok_constructed(2) [of "42 :: 8 word"] flag_ok_constructed(2) [of "- 42 :: 8 word"]
    flag_ok_constructed(3) [of POS, where ?'a = 8] flag_ok_constructed(3) [of NEG, where ?'a = 8]
    additive_state_transition_table [of "Extended_number (42 :: 8 word)" "Extended_number (- 42)"]
    additive_state_transition_table [of "Extended_number (42 :: 8 word)" "Extended_inf NEG"]
    additive_state_transition_table [of "Extended_inf POS :: 8 Extended" "Extended_number 42"]
    additive_state_transition_table [of "Extended_inf POS :: 8 Extended" "Extended_inf NEG"]
    additive_state_transition_table [of "Extended_inf NEG :: 8 Extended" "Extended_inf NEG"]
  by (simp add: constructed_defs)

text \<open>
  C2. Division.  Finite by Finite nonzero: Finite, the payload is the primitive quotient
  (where the built-in \<^verbatim>\<open>/\<close> has a quotient; where it has none, the least signed value
  by \<open>- 1\<close>, the outcome is \<open>Undefined\<close> and nothing is thrown).  Finite by infinite:
  Finite zero.  Infinite by Finite nonzero: infinite, the sign is the
  dividend's sign times the sign of the divisor's payload.  A Finite zero divisor throws
  \<^verbatim>\<open>infinite_error\<close> whatever the dividend, and so does infinite by infinite in all
  four sign combinations.
\<close>

theorem division_table:
  assumes "flag_ok a" and "flag_ok b"
  shows
  "(state_of a = Finite \<and> state_of b = Finite \<and> m_value b \<noteq> 0 \<longrightarrow>
      div_assign sg a b = prim_result (prim_div sg (m_value a) (m_value b)) \<and>
      (\<not> quotient_overflows sg (m_value a) (m_value b) \<longrightarrow>
         (\<exists>q. prim_div sg (m_value a) (m_value b) = Some q \<and>
              div_assign sg a b = Returns (Extended_number q)))) \<and>
   (state_of a = Finite \<and> state_of b \<noteq> Finite \<longrightarrow>
      div_assign sg a b = Returns (Extended_number 0)) \<and>
   (state_of a \<noteq> Finite \<and> state_of b = Finite \<and> m_value b \<noteq> 0 \<longrightarrow>
      (\<exists>a'. div_assign sg a b = Returns a' \<and>
            sign_of (state_of a') = sign_of (state_of a) * sgn (prim_value sg (m_value b)))) \<and>
   (state_of b = Finite \<and> m_value b = 0 \<longrightarrow> (\<exists>e. div_assign sg a b = Throws e a)) \<and>
   (state_of a \<noteq> Finite \<and> state_of b \<noteq> Finite \<longrightarrow> (\<exists>e. div_assign sg a b = Throws e a))"
  using assms(1)
proof (cases rule: state_of_cases)
  case 1
  from assms(2) show ?thesis
    by (cases rule: state_of_cases)
       (simp_all add: 1 div_assign_def inf_assert_def flag_distinct Extended_number_def
          prim_result_def prim_div_def)
next
  case 2
  from assms(2) show ?thesis
    by (cases rule: state_of_cases)
       (simp_all add: 2 div_assign_def inf_assert_def flag_distinct state_of_def
          prim_less_zero_sgn)
next
  case 3
  from assms(2) show ?thesis
    by (cases rule: state_of_cases)
       (simp_all add: 3 div_assign_def inf_assert_def flag_distinct state_of_def
          prim_less_zero_sgn)
qed

theorem division_table_witness:
  "flag_ok (Extended_number (42 :: 16 word)) \<and> flag_ok (Extended_number (- 42 :: 16 word)) \<and>
   flag_ok (Extended_number (0 :: 16 word)) \<and>
   flag_ok (Extended_inf POS :: 16 Extended) \<and> flag_ok (Extended_inf NEG :: 16 Extended) \<and>
   div_assign True (Extended_number (42 :: 16 word)) (Extended_number (- 42)) =
     Returns (Extended_number (- 1)) \<and>
   div_assign True (Extended_number (- 32768 :: 16 word)) (Extended_number (- 1)) =
     Returns (Extended_number (- 32768)) \<and>
   div_assign True (Extended_number (- 2147483648 :: 32 word)) (Extended_number (- 1)) =
     Undefined \<and>
   div_assign False (Extended_number (- 2147483648 :: 32 word)) (Extended_number (- 1)) =
     Returns (Extended_number 0) \<and>
   div_assign True (Extended_number (42 :: 16 word)) (Extended_inf NEG) =
     Returns (Extended_number 0) \<and>
   (\<exists>a'. div_assign True (Extended_inf POS :: 16 Extended) (Extended_number (- 42)) = Returns a' \<and>
         sign_of (state_of a') = - 1) \<and>
   (\<exists>e. div_assign True (Extended_number (42 :: 16 word)) (Extended_number 0) =
         Throws e (Extended_number 42)) \<and>
   (\<exists>e. div_assign True (Extended_inf NEG :: 16 Extended) (Extended_number 0) =
         Throws e (Extended_inf NEG)) \<and>
   (\<exists>e. div_assign True (Extended_inf NEG :: 16 Extended) (Extended_inf POS) =
         Throws e (Extended_inf NEG))"
  using flag_ok_constructed(2) [of "42 :: 16 word"] flag_ok_constructed(2) [of "- 42 :: 16 word"]
    flag_ok_constructed(2) [of "0 :: 16 word"] flag_ok_constructed(2) [of "- 32768 :: 16 word"]
    flag_ok_constructed(2) [of "- 1 :: 16 word"]
    flag_ok_constructed(2) [of "- 2147483648 :: 32 word"] flag_ok_constructed(2) [of "- 1 :: 32 word"]
    flag_ok_constructed(3) [of POS, where ?'a = 16] flag_ok_constructed(3) [of NEG, where ?'a = 16]
    division_table [of "Extended_number (42 :: 16 word)" "Extended_number (- 42)" True]
    division_table [of "Extended_number (- 32768 :: 16 word)" "Extended_number (- 1)" True]
    division_table [of "Extended_number (- 2147483648 :: 32 word)" "Extended_number (- 1)" True]
    division_table [of "Extended_number (- 2147483648 :: 32 word)" "Extended_number (- 1)" False]
    division_table [of "Extended_number (42 :: 16 word)" "Extended_inf NEG" True]
    division_table [of "Extended_inf POS :: 16 Extended" "Extended_number (- 42)" True]
    division_table [of "Extended_number (42 :: 16 word)" "Extended_number 0" True]
    division_table [of "Extended_inf NEG :: 16 Extended" "Extended_number 0" True]
    division_table [of "Extended_inf NEG :: 16 Extended" "Extended_inf POS" True]
  by (simp add: constructed_defs prim_result_def prim_div_def quotient_overflows_def
      promoted_width_def prim_value_def signed_divide_int_def)

text \<open>
  C3. Multiplication.  Finite zero with an infinity, in either order: Finite zero.
  Finite nonzero with an infinity, in either order: an infinity whose sign is the product
  of the sign of the finite payload and the sign of the infinite operand.  Two
  infinities: an infinity whose sign is the product of the two signs.  No multiplication
  throws.
\<close>

theorem multiplication_table:
  assumes "flag_ok a" and "flag_ok b"
  shows
  "(\<exists>r. mul_assign sg a b = Returns r) \<and>
   (state_of a = Finite \<and> m_value a = 0 \<and> state_of b \<noteq> Finite \<longrightarrow>
      mul_assign sg a b = Returns (Extended_number 0)) \<and>
   (state_of a \<noteq> Finite \<and> state_of b = Finite \<and> m_value b = 0 \<longrightarrow>
      mul_assign sg a b = Returns (Extended_number 0)) \<and>
   (state_of a = Finite \<and> m_value a \<noteq> 0 \<and> state_of b \<noteq> Finite \<longrightarrow>
      (\<exists>r. mul_assign sg a b = Returns r \<and>
           sign_of (state_of r) = sgn (prim_value sg (m_value a)) * sign_of (state_of b))) \<and>
   (state_of a \<noteq> Finite \<and> state_of b = Finite \<and> m_value b \<noteq> 0 \<longrightarrow>
      (\<exists>r. mul_assign sg a b = Returns r \<and>
           sign_of (state_of r) = sign_of (state_of a) * sgn (prim_value sg (m_value b)))) \<and>
   (state_of a \<noteq> Finite \<and> state_of b \<noteq> Finite \<longrightarrow>
      (\<exists>r. mul_assign sg a b = Returns r \<and> state_of r \<noteq> Finite \<and>
           sign_of (state_of r) = sign_of (state_of a) * sign_of (state_of b)))"
  using assms(1)
proof (cases rule: state_of_cases)
  case 1
  from assms(2) show ?thesis
    by (cases rule: state_of_cases)
       (auto simp: 1 mul_assign_def flag_distinct flag_negate state_of_def Extended_number_def
          prim_less_zero_sgn prim_greater_zero prim_less_irrefl)
next
  case 2
  from assms(2) show ?thesis
    by (cases rule: state_of_cases)
       (auto simp: 2 mul_assign_def flag_distinct flag_negate state_of_def Extended_number_def
          prim_less_zero_sgn)
next
  case 3
  from assms(2) show ?thesis
    by (cases rule: state_of_cases)
       (auto simp: 3 mul_assign_def flag_distinct flag_negate state_of_def Extended_number_def
          prim_less_zero_sgn)
qed

theorem multiplication_table_witness:
  "flag_ok (Extended_number (- 42 :: 16 word)) \<and> flag_ok (Extended_number (0 :: 16 word)) \<and>
   flag_ok (Extended_inf POS :: 16 Extended) \<and> flag_ok (Extended_inf NEG :: 16 Extended) \<and>
   mul_assign True (Extended_number (0 :: 16 word)) (Extended_inf NEG) =
     Returns (Extended_number 0) \<and>
   mul_assign True (Extended_inf NEG :: 16 Extended) (Extended_number 0) =
     Returns (Extended_number 0) \<and>
   (\<exists>r. mul_assign True (Extended_number (- 42 :: 16 word)) (Extended_inf POS) = Returns r \<and>
        sign_of (state_of r) = - 1) \<and>
   (\<exists>r. mul_assign True (Extended_inf NEG :: 16 Extended) (Extended_number (- 42)) = Returns r \<and>
        sign_of (state_of r) = 1) \<and>
   (\<exists>r. mul_assign True (Extended_inf NEG :: 16 Extended) (Extended_inf NEG) = Returns r \<and>
        state_of r \<noteq> Finite \<and> sign_of (state_of r) = 1)"
  using flag_ok_constructed(2) [of "- 42 :: 16 word"] flag_ok_constructed(2) [of "0 :: 16 word"]
    flag_ok_constructed(3) [of POS, where ?'a = 16] flag_ok_constructed(3) [of NEG, where ?'a = 16]
    multiplication_table [of "Extended_number (0 :: 16 word)" "Extended_inf NEG" True]
    multiplication_table [of "Extended_inf NEG :: 16 Extended" "Extended_number 0" True]
    multiplication_table [of "Extended_number (- 42 :: 16 word)" "Extended_inf POS" True]
    multiplication_table [of "Extended_inf NEG :: 16 Extended" "Extended_number (- 42)" True]
    multiplication_table [of "Extended_inf NEG :: 16 Extended" "Extended_inf NEG" True]
  by (simp add: constructed_defs prim_value_def)

text \<open>Both comparisons, read through the states and the numeric value of the payloads.\<close>

lemma less_ext_by_state:
  assumes "flag_ok a" and "flag_ok b"
  shows "less_ext sg a b \<longleftrightarrow>
    (case (state_of a, state_of b) of
       (Finite, Finite) \<Rightarrow> prim_value sg (m_value a) < prim_value sg (m_value b)
     | (Finite, PositiveInfinity) \<Rightarrow> True
     | (NegativeInfinity, Finite) \<Rightarrow> True
     | (NegativeInfinity, PositiveInfinity) \<Rightarrow> True
     | _ \<Rightarrow> False)"
  using assms(1)
proof (cases rule: state_of_cases)
  case 1
  from assms(2) show ?thesis
    by (cases rule: state_of_cases)
       (simp_all add: 1 less_ext_def finite_ext_def flag_distinct prim_less_iff)
next
  case 2
  from assms(2) show ?thesis
    by (cases rule: state_of_cases) (simp_all add: 2 less_ext_def finite_ext_def flag_distinct)
next
  case 3
  from assms(2) show ?thesis
    by (cases rule: state_of_cases) (simp_all add: 3 less_ext_def finite_ext_def flag_distinct)
qed

lemma eq_ext_by_state:
  assumes "flag_ok a" and "flag_ok b"
  shows "eq_ext a b \<longleftrightarrow>
    (case (state_of a, state_of b) of
       (Finite, Finite) \<Rightarrow> prim_value sg (m_value a) = prim_value sg (m_value b)
     | (PositiveInfinity, PositiveInfinity) \<Rightarrow> True
     | (NegativeInfinity, NegativeInfinity) \<Rightarrow> True
     | _ \<Rightarrow> False)"
  using assms(1)
proof (cases rule: state_of_cases)
  case 1
  from assms(2) show ?thesis
    by (cases rule: state_of_cases)
       (simp_all add: 1 eq_ext_def finite_ext_def flag_distinct prim_value_inject)
next
  case 2
  from assms(2) show ?thesis
    by (cases rule: state_of_cases) (simp_all add: 2 eq_ext_def finite_ext_def flag_distinct)
next
  case 3
  from assms(2) show ?thesis
    by (cases rule: state_of_cases) (simp_all add: 3 eq_ext_def finite_ext_def flag_distinct)
qed

lemma le_ext_trans:
  assumes "flag_ok a" and "flag_ok b" and "flag_ok c"
    and "le_ext sg a b" and "le_ext sg b c"
  shows "le_ext sg a c"
  using assms(4,5)
  unfolding le_ext_def less_ext_by_state [OF assms(2,1)] less_ext_by_state [OF assms(3,2)]
    less_ext_by_state [OF assms(3,1)]
  by (cases "state_of a"; cases "state_of b"; cases "state_of c") simp_all

lemma less_ext_trans:
  assumes "flag_ok a" and "flag_ok b" and "flag_ok c"
    and "less_ext sg a b" and "less_ext sg b c"
  shows "less_ext sg a c"
  using assms(4,5)
  unfolding less_ext_by_state [OF assms(1,2)] less_ext_by_state [OF assms(2,3)]
    less_ext_by_state [OF assms(1,3)]
  by (cases "state_of a"; cases "state_of b"; cases "state_of c") simp_all

lemma ext_trichotomy:
  assumes "flag_ok a" and "flag_ok b"
  shows "(less_ext sg a b \<and> \<not> eq_ext a b \<and> \<not> greater_ext sg a b) \<or>
         (\<not> less_ext sg a b \<and> eq_ext a b \<and> \<not> greater_ext sg a b) \<or>
         (\<not> less_ext sg a b \<and> \<not> eq_ext a b \<and> greater_ext sg a b)"
  unfolding greater_ext_def less_ext_by_state [OF assms] less_ext_by_state [OF assms(2,1)]
    eq_ext_by_state [OF assms, of sg]
  by (cases "state_of a"; cases "state_of b") auto

text \<open>
  C4. Comparison is a strict total order: \<open>\<le>\<close> is transitive and exactly one of
  \<open>a < b\<close>, \<open>a == b\<close>, \<open>a > b\<close> holds.  Two Finite values compare by payload, a Finite
  value is below PositiveInfinity and above NegativeInfinity, NegativeInfinity is below
  PositiveInfinity, and two infinite values are equal iff they have the same sign.
\<close>

theorem comparison_strict_total_order:
  assumes "flag_ok a" and "flag_ok b" and "flag_ok c"
  shows
  "(le_ext sg a b \<and> le_ext sg b c \<longrightarrow> le_ext sg a c) \<and>
   (less_ext sg a b \<and> less_ext sg b c \<longrightarrow> less_ext sg a c) \<and>
   ((less_ext sg a b \<and> \<not> eq_ext a b \<and> \<not> greater_ext sg a b) \<or>
    (\<not> less_ext sg a b \<and> eq_ext a b \<and> \<not> greater_ext sg a b) \<or>
    (\<not> less_ext sg a b \<and> \<not> eq_ext a b \<and> greater_ext sg a b)) \<and>
   (state_of a = Finite \<and> state_of b = Finite \<longrightarrow>
      (less_ext sg a b \<longleftrightarrow> prim_value sg (m_value a) < prim_value sg (m_value b)) \<and>
      (eq_ext a b \<longleftrightarrow> m_value a = m_value b)) \<and>
   (state_of a = Finite \<and> state_of b = PositiveInfinity \<longrightarrow> less_ext sg a b) \<and>
   (state_of a = Finite \<and> state_of b = NegativeInfinity \<longrightarrow> greater_ext sg a b) \<and>
   (state_of a = NegativeInfinity \<and> state_of b = PositiveInfinity \<longrightarrow> less_ext sg a b) \<and>
   (state_of a \<noteq> Finite \<and> state_of b \<noteq> Finite \<longrightarrow>
      (eq_ext a b \<longleftrightarrow> state_of a = state_of b))"
proof -
  have trans_le: "le_ext sg a b \<and> le_ext sg b c \<longrightarrow> le_ext sg a c"
    using le_ext_trans [OF assms] by blast
  have trans_less: "less_ext sg a b \<and> less_ext sg b c \<longrightarrow> less_ext sg a c"
    using less_ext_trans [OF assms] by blast
  have by_payload: "state_of a = Finite \<and> state_of b = Finite \<longrightarrow>
      (less_ext sg a b \<longleftrightarrow> prim_value sg (m_value a) < prim_value sg (m_value b)) \<and>
      (eq_ext a b \<longleftrightarrow> m_value a = m_value b)"
    by (simp add: less_ext_by_state [OF assms(1,2)] eq_ext_by_state [OF assms(1,2), of sg]
        prim_value_inject)
  have mixed: "(state_of a = Finite \<and> state_of b = PositiveInfinity \<longrightarrow> less_ext sg a b) \<and>
      (state_of a = Finite \<and> state_of b = NegativeInfinity \<longrightarrow> greater_ext sg a b) \<and>
      (state_of a = NegativeInfinity \<and> state_of b = PositiveInfinity \<longrightarrow> less_ext sg a b)"
    by (simp add: greater_ext_def less_ext_by_state [OF assms(1,2)]
        less_ext_by_state [OF assms(2,1)])
  have infinities: "state_of a \<noteq> Finite \<and> state_of b \<noteq> Finite \<longrightarrow>
      (eq_ext a b \<longleftrightarrow> state_of a = state_of b)"
    unfolding eq_ext_by_state [OF assms(1,2), of sg]
    by (cases "state_of a"; cases "state_of b") simp_all
  from trans_le trans_less ext_trichotomy [OF assms(1,2), of sg] by_payload mixed infinities
  show ?thesis by blast
qed

theorem comparison_strict_total_order_witness:
  "flag_ok (Extended_inf NEG :: 32 Extended) \<and> flag_ok (Extended_number (- 42 :: 32 word)) \<and>
   flag_ok (Extended_number (42 :: 32 word)) \<and> flag_ok (Extended_inf POS :: 32 Extended) \<and>
   le_ext True (Extended_inf NEG) (Extended_number (- 42 :: 32 word)) \<and>
   le_ext True (Extended_number (- 42 :: 32 word)) (Extended_number 42) \<and>
   le_ext True (Extended_inf NEG) (Extended_number (42 :: 32 word)) \<and>
   less_ext True (Extended_number (- 42 :: 32 word)) (Extended_number 42) \<and>
   less_ext True (Extended_number (42 :: 32 word)) (Extended_inf POS) \<and>
   less_ext True (Extended_number (- 42 :: 32 word)) (Extended_inf POS) \<and>
   greater_ext True (Extended_number (42 :: 32 word)) (Extended_inf NEG) \<and>
   less_ext True (Extended_inf NEG :: 32 Extended) (Extended_inf POS) \<and>
   eq_ext (Extended_inf NEG :: 32 Extended) (Extended_inf NEG) \<and>
   \<not> eq_ext (Extended_inf NEG :: 32 Extended) (Extended_inf POS)"
  using flag_ok_constructed(2) [of "42 :: 32 word"] flag_ok_constructed(2) [of "- 42 :: 32 word"]
    flag_ok_constructed(3) [of POS, where ?'a = 32] flag_ok_constructed(3) [of NEG, where ?'a = 32]
    comparison_strict_total_order [of "Extended_inf NEG :: 32 Extended" "Extended_number (- 42)"
      "Extended_number 42" True]
    comparison_strict_total_order [of "Extended_number (- 42 :: 32 word)" "Extended_number 42"
      "Extended_inf POS" True]
    comparison_strict_total_order [of "Extended_number (42 :: 32 word)" "Extended_inf NEG"
      "Extended_inf POS" True]
    comparison_strict_total_order [of "Extended_inf NEG :: 32 Extended" "Extended_inf POS"
      "Extended_inf POS" True]
    comparison_strict_total_order [of "Extended_inf NEG :: 32 Extended" "Extended_inf NEG"
      "Extended_inf POS" True]
  by (simp add: constructed_defs le_ext_def less_ext_def greater_ext_def eq_ext_def
      prim_less_def prim_value_def word_sless_alt)

text \<open>
  C6. On a value in an infinite state, prefix and postfix increment and decrement change
  the payload by one and leave the flag as it is: no exception (all four are total
  functions into plain values), no change of sign, and the finiteness, all six
  comparisons against any other value, on either side, and the rendered text are the
  same before and after.  The postfix forms return the value as it was.
\<close>

theorem increment_on_infinity_unobservable:
  assumes "\<not> finite_ext x"
    and "x' \<in> {pre_inc x, snd (post_inc x), pre_dec x, snd (post_dec x)}"
  shows
  "m_flag x' = m_flag x \<and> state_of x' = state_of x \<and>
   (m_value x' = m_value x + 1 \<or> m_value x' = m_value x - 1) \<and>
   m_value (pre_inc x) = m_value x + 1 \<and> m_value (snd (post_inc x)) = m_value x + 1 \<and>
   m_value (pre_dec x) = m_value x - 1 \<and> m_value (snd (post_dec x)) = m_value x - 1 \<and>
   fst (post_inc x) = x \<and> fst (post_dec x) = x \<and>
   finite_ext x' = finite_ext x \<and>
   compare_all sg x' y = compare_all sg x y \<and>
   compare_all sg y x' = compare_all sg y x \<and>
   insert_ext put os x' = insert_ext put os x"
proof -
  have flag: "m_flag x' = m_flag x"
    using assms(2) by (auto simp: pre_inc_def post_inc_def pre_dec_def post_dec_def)
  have payload: "m_value x' = m_value x + 1 \<or> m_value x' = m_value x - 1"
    using assms(2) by (auto simp: pre_inc_def post_inc_def pre_dec_def post_dec_def)
  have fin: "\<not> finite_ext x'"
    using assms(1) flag by (simp add: finite_ext_def)
  have cmp_left: "compare_all sg x' y = compare_all sg x y"
    using assms(1) fin flag
    by (simp add: compare_all_def eq_ext_def neq_ext_def less_ext_def greater_ext_def
        le_ext_def ge_ext_def)
  have cmp_right: "compare_all sg y x' = compare_all sg y x"
    using assms(1) fin flag
    by (simp add: compare_all_def eq_ext_def neq_ext_def less_ext_def greater_ext_def
        le_ext_def ge_ext_def)
  have rendered: "insert_ext put os x' = insert_ext put os x"
    using assms(1) fin flag by (simp add: insert_ext_def)
  have steps: "m_value (pre_inc x) = m_value x + 1 \<and> m_value (snd (post_inc x)) = m_value x + 1 \<and>
      m_value (pre_dec x) = m_value x - 1 \<and> m_value (snd (post_dec x)) = m_value x - 1 \<and>
      fst (post_inc x) = x \<and> fst (post_dec x) = x"
    by (simp add: pre_inc_def post_inc_def pre_dec_def post_dec_def)
  from flag payload fin assms(1) cmp_left cmp_right rendered steps show ?thesis
    by (simp add: state_of_def)
qed

theorem increment_on_infinity_unobservable_witness:
  "\<not> finite_ext (Extended_inf POS :: 8 Extended) \<and>
   m_flag (pre_inc (Extended_inf POS :: 8 Extended)) = POS_INF_FLAG \<and>
   m_value (pre_inc (Extended_inf POS :: 8 Extended)) = 1 \<and>
   compare_all True (pre_inc (Extended_inf POS :: 8 Extended)) (Extended_number 42) =
     [False, True, False, True, False, True] \<and>
   compare_all True (Extended_inf POS :: 8 Extended) (Extended_number 42) =
     [False, True, False, True, False, True] \<and>
   insert_ext (put_decimal True) [] (pre_inc (Extended_inf POS :: 8 Extended)) = ''+inf'' \<and>
   \<not> finite_ext (Extended_inf NEG :: 8 Extended) \<and>
   m_flag (snd (post_dec (Extended_inf NEG :: 8 Extended))) = NEG_INF_FLAG \<and>
   m_value (snd (post_dec (Extended_inf NEG :: 8 Extended))) = - 1 \<and>
   fst (post_dec (Extended_inf NEG :: 8 Extended)) = Extended_inf NEG \<and>
   insert_ext (put_decimal True) [] (snd (post_dec (Extended_inf NEG :: 8 Extended))) = ''-inf''"
  using increment_on_infinity_unobservable [of "Extended_inf POS :: 8 Extended"
      "pre_inc (Extended_inf POS)" True "Extended_number 42" "put_decimal True" "[]"]
    increment_on_infinity_unobservable [of "Extended_inf NEG :: 8 Extended"
      "snd (post_dec (Extended_inf NEG))" True "Extended_number 42" "put_decimal True" "[]"]
  by (simp add: constructed_defs compare_all_def eq_ext_def neq_ext_def less_ext_def
      greater_ext_def le_ext_def ge_ext_def insert_ext_def)

text \<open>
  C7. Modulo and the bitwise operators throw \<^verbatim>\<open>infinite_error\<close> whenever an operand is
  not Finite (for \<^verbatim>\<open>~\<close>: its one operand), and on Finite operands give the built-in
  operator of \<open>T\<close> applied to the payloads: its result, or \<open>Undefined\<close> where it has none
  (remainder by zero, remainder of the least signed value by \<open>- 1\<close>, a shift count out of
  range), and never a throw.
\<close>

theorem modulo_and_bitwise_require_finite:
  "(\<not> (finite_ext a \<and> finite_ext b) \<longrightarrow>
      (\<exists>e. mod_assign sg a b = Throws e a) \<and>
      (\<exists>e. and_assign a b = Throws e a) \<and>
      (\<exists>e. or_assign a b = Throws e a) \<and>
      (\<exists>e. xor_assign a b = Throws e a) \<and>
      (\<exists>e. shl_assign sg a b = Throws e a) \<and>
      (\<exists>e. shr_assign sg a b = Throws e a)) \<and>
   (\<not> finite_ext a \<longrightarrow> isl (bit_not a)) \<and>
   (finite_ext a \<longrightarrow> bit_not a = Inr (Extended_number (NOT (m_value a)))) \<and>
   (finite_ext a \<and> finite_ext b \<longrightarrow>
      mod_assign sg a b = prim_result (prim_mod sg (m_value a) (m_value b)) \<and>
      and_assign a b = Returns (Extended_number (m_value a AND m_value b)) \<and>
      or_assign a b = Returns (Extended_number (m_value a OR m_value b)) \<and>
      xor_assign a b = Returns (Extended_number (m_value a XOR m_value b)) \<and>
      shl_assign sg a b = prim_result (prim_shl sg (m_value a) (m_value b)) \<and>
      shr_assign sg a b = prim_result (prim_shr sg (m_value a) (m_value b)))"
proof -
  have infinite: "\<not> (finite_ext a \<and> finite_ext b) \<longrightarrow>
      (\<exists>e. mod_assign sg a b = Throws e a) \<and>
      (\<exists>e. and_assign a b = Throws e a) \<and>
      (\<exists>e. or_assign a b = Throws e a) \<and>
      (\<exists>e. xor_assign a b = Throws e a) \<and>
      (\<exists>e. shl_assign sg a b = Throws e a) \<and>
      (\<exists>e. shr_assign sg a b = Throws e a)"
    by (simp add: mod_assign_def and_assign_def or_assign_def xor_assign_def shl_assign_def
        shr_assign_def inf_assert_def)
  have complement: "(\<not> finite_ext a \<longrightarrow> isl (bit_not a)) \<and>
      (finite_ext a \<longrightarrow> bit_not a = Inr (Extended_number (NOT (m_value a))))"
    by (simp add: bit_not_def inf_assert_def)
  have bits: "finite_ext a \<and> finite_ext b \<longrightarrow>
      and_assign a b = Returns (Extended_number (m_value a AND m_value b)) \<and>
      or_assign a b = Returns (Extended_number (m_value a OR m_value b)) \<and>
      xor_assign a b = Returns (Extended_number (m_value a XOR m_value b))"
    by (simp add: and_assign_def or_assign_def xor_assign_def inf_assert_def finite_ext_def
        Extended_number_def)
  have partial: "finite_ext a \<and> finite_ext b \<longrightarrow>
      mod_assign sg a b = prim_result (prim_mod sg (m_value a) (m_value b)) \<and>
      shl_assign sg a b = prim_result (prim_shl sg (m_value a) (m_value b)) \<and>
      shr_assign sg a b = prim_result (prim_shr sg (m_value a) (m_value b))"
    by (simp add: mod_assign_def shl_assign_def shr_assign_def inf_assert_def finite_ext_def
        Extended_number_def prim_result_def split: option.splits)
  from infinite complement bits partial show ?thesis by blast
qed

theorem modulo_and_bitwise_require_finite_witness:
  "\<not> (finite_ext (Extended_number (12 :: 32 word)) \<and> finite_ext (Extended_inf POS :: 32 Extended)) \<and>
   (\<exists>e. mod_assign False (Extended_number (12 :: 32 word)) (Extended_inf POS) =
         Throws e (Extended_number 12)) \<and>
   (\<exists>e. shl_assign False (Extended_number (12 :: 32 word)) (Extended_inf POS) =
         Throws e (Extended_number 12)) \<and>
   \<not> finite_ext (Extended_inf NEG :: 32 Extended) \<and>
   isl (bit_not (Extended_inf NEG :: 32 Extended)) \<and>
   finite_ext (Extended_number (12 :: 32 word)) \<and> finite_ext (Extended_number (10 :: 32 word)) \<and>
   bit_not (Extended_number (12 :: 32 word)) = Inr (Extended_number (- 13)) \<and>
   mod_assign False (Extended_number (12 :: 32 word)) (Extended_number 10) =
     Returns (Extended_number 2) \<and>
   mod_assign False (Extended_number (12 :: 32 word)) (Extended_number 0) = Undefined \<and>
   mod_assign True (Extended_number (- 2147483648 :: 32 word)) (Extended_number (- 1)) =
     Undefined \<and>
   mod_assign True (Extended_number (- 7 :: 32 word)) (Extended_number 2) =
     Returns (Extended_number (- 1)) \<and>
   and_assign (Extended_number (12 :: 32 word)) (Extended_number 10) =
     Returns (Extended_number 8) \<and>
   or_assign (Extended_number (12 :: 32 word)) (Extended_number 10) =
     Returns (Extended_number 14) \<and>
   xor_assign (Extended_number (12 :: 32 word)) (Extended_number 10) =
     Returns (Extended_number 6) \<and>
   shl_assign False (Extended_number (12 :: 32 word)) (Extended_number 10) =
     Returns (Extended_number 12288) \<and>
   shr_assign False (Extended_number (12 :: 32 word)) (Extended_number 2) =
     Returns (Extended_number 3)"
  using modulo_and_bitwise_require_finite [of "Extended_number (12 :: 32 word)"
      "Extended_inf POS" False]
    modulo_and_bitwise_require_finite [of "Extended_inf NEG :: 32 Extended"
      "Extended_inf POS" False]
    modulo_and_bitwise_require_finite [of "Extended_number (12 :: 32 word)"
      "Extended_number 10" False]
    modulo_and_bitwise_require_finite [of "Extended_number (12 :: 32 word)"
      "Extended_number 0" False]
    modulo_and_bitwise_require_finite [of "Extended_number (12 :: 32 word)"
      "Extended_number 2" False]
    modulo_and_bitwise_require_finite [of "Extended_number (- 2147483648 :: 32 word)"
      "Extended_number (- 1)" True]
    modulo_and_bitwise_require_finite [of "Extended_number (- 7 :: 32 word)"
      "Extended_number 2" True]
  by (simp add: constructed_defs prim_result_def prim_mod_def prim_shl_def prim_shr_def
      prim_value_def promoted_width_def quotient_overflows_def signed_modulo_int_def)

text \<open>
  C10. When \<^verbatim>\<open>+=\<close>, \<^verbatim>\<open>-=\<close>, \<^verbatim>\<open>/=\<close>, \<^verbatim>\<open>%=\<close>, \<^verbatim>\<open>&=\<close>, \<^verbatim>\<open>|=\<close>, \<^verbatim>\<open>^=\<close>,
  \<^verbatim>\<open><<=\<close> or \<^verbatim>\<open>>>=\<close> throws, the receiver at the \<^verbatim>\<open>throw\<close> is the receiver as it
  was before the call, flag and payload.
\<close>

theorem throw_leaves_receiver_unchanged:
  "(add_assign a b = Throws e s \<longrightarrow> s = a) \<and>
   (sub_assign a b = Throws e s \<longrightarrow> s = a) \<and>
   (div_assign sg a b = Throws e s \<longrightarrow> s = a) \<and>
   (mod_assign sg a b = Throws e s \<longrightarrow> s = a) \<and>
   (and_assign a b = Throws e s \<longrightarrow> s = a) \<and>
   (or_assign a b = Throws e s \<longrightarrow> s = a) \<and>
   (xor_assign a b = Throws e s \<longrightarrow> s = a) \<and>
   (shl_assign sg a b = Throws e s \<longrightarrow> s = a) \<and>
   (shr_assign sg a b = Throws e s \<longrightarrow> s = a)"
proof -
  have add: "add_assign a b = Throws e s \<longrightarrow> s = a"
    by (simp add: add_assign_def invalid_flag_def split: if_splits)
  have sub: "sub_assign a b = Throws e s \<longrightarrow> s = a"
    by (simp add: sub_assign_def invalid_flag_def split: if_splits)
  have div: "div_assign sg a b = Throws e s \<longrightarrow> s = a"
    by (simp add: div_assign_def invalid_flag_def inf_assert_def split: if_splits option.splits)
  have mod: "mod_assign sg a b = Throws e s \<longrightarrow> s = a"
    by (simp add: mod_assign_def inf_assert_def split: if_splits option.splits)
  have bits: "(and_assign a b = Throws e s \<longrightarrow> s = a) \<and>
      (or_assign a b = Throws e s \<longrightarrow> s = a) \<and> (xor_assign a b = Throws e s \<longrightarrow> s = a)"
    by (simp add: and_assign_def or_assign_def xor_assign_def inf_assert_def split: if_splits)
  have shifts: "(shl_assign sg a b = Throws e s \<longrightarrow> s = a) \<and>
      (shr_assign sg a b = Throws e s \<longrightarrow> s = a)"
    by (simp add: shl_assign_def shr_assign_def inf_assert_def split: if_splits option.splits)
  from add sub div mod bits shifts show ?thesis by blast
qed

theorem throw_leaves_receiver_unchanged_witness:
  "add_assign (Extended_inf POS :: 8 Extended) (Extended_inf NEG) =
     Throws (infinite_error ''Indeterminate form: +inf + -inf'') (Extended_inf POS) \<and>
   sub_assign (Extended_inf NEG :: 8 Extended) (Extended_inf NEG) =
     Throws (infinite_error ''Indeterminate form: -inf - -inf'') (Extended_inf NEG) \<and>
   div_assign True (Extended_number (42 :: 8 word)) (Extended_number 0) =
     Throws (infinite_error ''Indeterminate form: +inf / 0'') (Extended_number 42) \<and>
   mod_assign True (Extended_number (42 :: 8 word)) (Extended_inf POS) =
     Throws (infinite_error ''Finite error: modular arithmetic requires finite values.'')
       (Extended_number 42) \<and>
   and_assign (Extended_inf POS :: 8 Extended) (Extended_number 1) =
     Throws (infinite_error ''Finite error: bitwise and requires finite values.'')
       (Extended_inf POS) \<and>
   or_assign (Extended_inf POS :: 8 Extended) (Extended_number 1) =
     Throws (infinite_error ''Finite error: bitwise or requires finite values.'')
       (Extended_inf POS) \<and>
   xor_assign (Extended_inf POS :: 8 Extended) (Extended_number 1) =
     Throws (infinite_error ''Finite error: bitwise xor requires finite values.'')
       (Extended_inf POS) \<and>
   shl_assign True (Extended_number (42 :: 8 word)) (Extended_inf NEG) =
     Throws (infinite_error ''Finite error: bitwise leftshift requires finite values.'')
       (Extended_number 42) \<and>
   shr_assign True (Extended_number (42 :: 8 word)) (Extended_inf NEG) =
     Throws (infinite_error ''Finite error: bitwise rightshift requires finite values.'')
       (Extended_number 42)"
  using throw_leaves_receiver_unchanged [of "Extended_inf POS :: 8 Extended" "Extended_inf NEG"
      "infinite_error ''Indeterminate form: +inf + -inf''" "Extended_inf POS" True]
    throw_leaves_receiver_unchanged [of "Extended_inf NEG :: 8 Extended" "Extended_inf NEG"
      "infinite_error ''Indeterminate form: -inf - -inf''" "Extended_inf NEG" True]
  by (simp add: constructed_defs add_assign_def sub_assign_def div_assign_def mod_assign_def
      and_assign_def or_assign_def xor_assign_def shl_assign_def shr_assign_def inf_assert_def)

text \<open>
  C8. Rendering a Finite value appends what \<open>T\<close> itself writes for the payload; for a
  16-bit integer payload 256 that is the text \<open>256\<close>.  PositiveInfinity renders as
  exactly \<open>+inf\<close> and NegativeInfinity as exactly \<open>-inf\<close>.
\<close>

theorem rendering_finite_and_infinite:
  "(finite_ext x \<longrightarrow> insert_ext put os x = os @ put (m_value x)) \<and>
   (state_of x = PositiveInfinity \<longrightarrow> insert_ext put os x = os @ ''+inf'') \<and>
   (state_of x = NegativeInfinity \<longrightarrow> insert_ext put os x = os @ ''-inf'') \<and>
   insert_ext (put_decimal sg) [] (Extended_number (256 :: 16 word)) = ''256'' \<and>
   insert_ext put [] (Extended_inf POS) = ''+inf'' \<and>
   insert_ext put [] (Extended_inf NEG) = ''-inf''"
proof -
  have general: "(finite_ext x \<longrightarrow> insert_ext put os x = os @ put (m_value x)) \<and>
      (state_of x = PositiveInfinity \<longrightarrow> insert_ext put os x = os @ ''+inf'') \<and>
      (state_of x = NegativeInfinity \<longrightarrow> insert_ext put os x = os @ ''-inf'')"
    by (simp add: insert_ext_def finite_ext_def state_of_def flag_distinct split: if_splits)
  have "put_decimal sg (256 :: 16 word) = ''256''"
    by (simp add: put_decimal_def prim_value_def digits.simps)
  then have example: "insert_ext (put_decimal sg) [] (Extended_number (256 :: 16 word)) = ''256''"
    by (simp add: insert_ext_def finite_ext_def Extended_number_def)
  have infinities: "insert_ext put [] (Extended_inf POS) = ''+inf'' \<and>
      insert_ext put [] (Extended_inf NEG) = ''-inf''"
    by (simp add: insert_ext_def finite_ext_def Extended_inf_def flag_distinct)
  from general example infinities show ?thesis by blast
qed

theorem rendering_finite_and_infinite_witness:
  "finite_ext (Extended_number (- 480 :: 16 word)) \<and>
   insert_ext (put_decimal True) ''x = '' (Extended_number (- 480 :: 16 word)) = ''x = -480'' \<and>
   state_of (assign_inf (Extended_number (256 :: 16 word)) POS) = PositiveInfinity \<and>
   insert_ext (put_decimal False) [] (assign_inf (Extended_number (256 :: 16 word)) POS) = ''+inf'' \<and>
   state_of (assign_inf (Extended_number (256 :: 16 word)) NEG) = NegativeInfinity \<and>
   insert_ext (put_decimal False) [] (assign_inf (Extended_number (256 :: 16 word)) NEG) = ''-inf''"
  using rendering_finite_and_infinite [of "Extended_number (- 480 :: 16 word)" "put_decimal True"
      "''x = ''" True]
    rendering_finite_and_infinite [of "assign_inf (Extended_number (256 :: 16 word)) POS"
      "put_decimal False" "[]" False]
    rendering_finite_and_infinite [of "assign_inf (Extended_number (256 :: 16 word)) NEG"
      "put_decimal False" "[]" False]
  by (simp add: constructed_defs assign_inf_def put_decimal_def prim_value_def digits.simps)

lemma get_decimal_minus_480:
  assumes "10 \<le> LENGTH('a::len)"
  shows "get_decimal \<lparr>buffer = ''-480'', failbit = False\<rparr> (v :: 'a word) =
    (\<lparr>buffer = [], failbit = False\<rparr>, - 480)"
proof -
  have "(2 :: int) ^ 9 \<le> 2 ^ (LENGTH('a) - 1)"
    using assms by (intro power_increasing) simp_all
  then have range: "\<not> (2 :: int) ^ (LENGTH('a) - 1) - 1 < - 480"
    "\<not> - 480 < - ((2 :: int) ^ (LENGTH('a) - 1))"
    by simp_all
  show ?thesis
    using range by (simp add: get_decimal_def is_space_def is_digit_def digits_value_def)
qed

text \<open>
  C9. Parsing always leaves the value Finite, whatever its state was, with the payload
  that \<open>T\<close>'s own extraction produced.  With the text \<open>-480\<close> and a signed integer \<open>T\<close>
  of at least 10 bits the result equals \<^verbatim>\<open>Extended<T>(-480)\<close>, for every prior flag and
  payload.
\<close>

theorem parsing_yields_finite:
  assumes "10 \<le> LENGTH('a::len)"
  shows
  "finite_ext (snd (extract_ext get is x)) \<and>
   state_of (snd (extract_ext get is x)) = Finite \<and>
   extract_ext get is x = (fst (get is (m_value x)), Extended_number (snd (get is (m_value x)))) \<and>
   snd (extract_ext get_decimal \<lparr>buffer = ''-480'', failbit = False\<rparr> (y :: 'a Extended)) =
     Extended_number (- 480) \<and>
   eq_ext (snd (extract_ext get_decimal \<lparr>buffer = ''-480'', failbit = False\<rparr> y))
     (Extended_number (- 480))"
proof -
  have general: "extract_ext get is x =
      (fst (get is (m_value x)), Extended_number (snd (get is (m_value x))))"
    by (simp add: extract_ext_def Extended_number_def split: prod.splits)
  have example: "snd (extract_ext get_decimal \<lparr>buffer = ''-480'', failbit = False\<rparr> y) =
      Extended_number (- 480)"
    by (simp add: extract_ext_def Extended_number_def get_decimal_minus_480 [OF assms])
  from general example show ?thesis
    by (simp add: finite_ext_def state_of_def eq_ext_def Extended_number_def)
qed

theorem parsing_yields_finite_witness:
  "10 \<le> LENGTH(64) \<and>
   snd (extract_ext get_decimal \<lparr>buffer = ''-480'', failbit = False\<rparr>
          (Extended_inf NEG :: 64 Extended)) = Extended_number (- 480) \<and>
   finite_ext (snd (extract_ext get_decimal \<lparr>buffer = ''-480'', failbit = False\<rparr>
          (Extended_inf NEG :: 64 Extended))) \<and>
   value_ext (snd (extract_ext get_decimal \<lparr>buffer = ''-480'', failbit = False\<rparr>
          (Extended_inf NEG :: 64 Extended))) = Inr (- 480)"
proof -
  have len: "10 \<le> LENGTH(64)" by simp
  from parsing_yields_finite [OF len, of get_decimal "\<lparr>buffer = ''-480'', failbit = False\<rparr>"
      "Extended_inf NEG :: 64 Extended" "Extended_inf NEG"]
  have parsed: "snd (extract_ext get_decimal \<lparr>buffer = ''-480'', failbit = False\<rparr>
      (Extended_inf NEG :: 64 Extended)) = Extended_number (- 480)"
    by blast
  show ?thesis
    unfolding parsed by (simp add: value_ext_def inf_assert_def Extended_number_def finite_ext_def)
qed

end
